theory Spec2Isabelle
  imports Complex_Main
begin

section \<open>Numbers\<close>

text \<open>
  The calculator works on float64 values (numpy scalars read from the table, and the
  results of arithmetic on them). A finite value is modelled by the real number it
  stands for: rounding and overflow are outside the model. The three special values
  are kept, with the rules numpy applies to them: a division by zero gives an
  infinity or nan (numpy warns, it does not raise), and nan compares false with
  everything. Zero carries no sign; every divisor of the program is a product of
  non-negative factors or a positive literal, so a negative zero never divides.
\<close>

datatype float64 = Fin real | PInf | NInf | NaN

fun fneg :: "float64 \<Rightarrow> float64" where
  "fneg (Fin x) = Fin (- x)"
| "fneg PInf = NInf"
| "fneg NInf = PInf"
| "fneg NaN = NaN"

fun fadd :: "float64 \<Rightarrow> float64 \<Rightarrow> float64" where
  "fadd (Fin x) (Fin y) = Fin (x + y)"
| "fadd (Fin x) PInf = PInf"
| "fadd (Fin x) NInf = NInf"
| "fadd PInf (Fin y) = PInf"
| "fadd PInf PInf = PInf"
| "fadd PInf NInf = NaN"
| "fadd NInf (Fin y) = NInf"
| "fadd NInf PInf = NaN"
| "fadd NInf NInf = NInf"
| "fadd NaN b = NaN"
| "fadd a NaN = NaN"

definition fsub :: "float64 \<Rightarrow> float64 \<Rightarrow> float64" where
  "fsub a b = fadd a (fneg b)"

fun fmul :: "float64 \<Rightarrow> float64 \<Rightarrow> float64" where
  "fmul (Fin x) (Fin y) = Fin (x * y)"
| "fmul (Fin x) PInf = (if x = 0 then NaN else if 0 < x then PInf else NInf)"
| "fmul (Fin x) NInf = (if x = 0 then NaN else if 0 < x then NInf else PInf)"
| "fmul PInf (Fin y) = (if y = 0 then NaN else if 0 < y then PInf else NInf)"
| "fmul NInf (Fin y) = (if y = 0 then NaN else if 0 < y then NInf else PInf)"
| "fmul PInf PInf = PInf"
| "fmul PInf NInf = NInf"
| "fmul NInf PInf = NInf"
| "fmul NInf NInf = PInf"
| "fmul NaN b = NaN"
| "fmul a NaN = NaN"

fun fdiv :: "float64 \<Rightarrow> float64 \<Rightarrow> float64" where
  "fdiv (Fin x) (Fin y) =
     (if y = 0 then (if x = 0 then NaN else if 0 < x then PInf else NInf)
      else Fin (x / y))"
| "fdiv (Fin x) PInf = Fin 0"
| "fdiv (Fin x) NInf = Fin 0"
| "fdiv PInf (Fin y) = (if 0 \<le> y then PInf else NInf)"
| "fdiv NInf (Fin y) = (if 0 \<le> y then NInf else PInf)"
| "fdiv PInf PInf = NaN"
| "fdiv PInf NInf = NaN"
| "fdiv NInf PInf = NaN"
| "fdiv NInf NInf = NaN"
| "fdiv NaN b = NaN"
| "fdiv a NaN = NaN"

fun flt :: "float64 \<Rightarrow> float64 \<Rightarrow> bool" where
  "flt (Fin x) (Fin y) = (x < y)"
| "flt (Fin x) PInf = True"
| "flt (Fin x) NInf = False"
| "flt PInf b = False"
| "flt NInf (Fin y) = True"
| "flt NInf PInf = True"
| "flt NInf NInf = False"
| "flt NaN b = False"
| "flt a NaN = False"

text \<open>\<^verbatim>\<open>a > b\<close> on floats.\<close>

definition fgt :: "float64 \<Rightarrow> float64 \<Rightarrow> bool" where
  "fgt a b = flt b a"

fun fsqrt :: "float64 \<Rightarrow> float64" where
  "fsqrt (Fin x) = (if x < 0 then NaN else Fin (sqrt x))"
| "fsqrt PInf = PInf"
| "fsqrt NInf = NaN"
| "fsqrt NaN = NaN"

text \<open>
  Python's builtin \<^verbatim>\<open>min(a, b)\<close> keeps its first argument unless the second
  compares strictly less.
\<close>

definition py_min :: "float64 \<Rightarrow> float64 \<Rightarrow> float64" where
  "py_min a b = (if flt b a then b else a)"

section \<open>Exceptions\<close>

text \<open>
  The exceptions the modelled statements can raise, each with the text that
  \<^verbatim>\<open>str(e)\<close> gives (for a KeyError, the key; its text is the key's repr).
  All of them derive from \<^verbatim>\<open>Exception\<close>.
\<close>

datatype exn =
    KeyError string
  | IndexError string
  | TypeError string
  | UnboundLocalError string

fun str_exn :: "exn \<Rightarrow> string" where
  "str_exn (KeyError k) = [CHR 0x27] @ k @ [CHR 0x27]"
| "str_exn (IndexError m) = m"
| "str_exn (TypeError m) = m"
| "str_exn (UnboundLocalError m) = m"

text \<open>Sequencing of statements that may raise: the first exception ends the block.\<close>

definition bind :: "exn + 'a \<Rightarrow> ('a \<Rightarrow> exn + 'b) \<Rightarrow> exn + 'b" where
  "bind m f = (case m of Inl e \<Rightarrow> Inl e | Inr x \<Rightarrow> f x)"

section \<open>Values, tables and dictionaries\<close>

text \<open>
  A scalar read from a table is a float (numeric column) or a string (object column).
  Arithmetic between scalars raises TypeError as soon as a string takes part:
  \<^verbatim>\<open>str - str\<close>, \<^verbatim>\<open>float - str\<close>, \<^verbatim>\<open>str * float\<close> and \<^verbatim>\<open>str / float\<close> are all
  unsupported in Python.
\<close>

datatype scalar = Num float64 | Str string

fun scalar_sub :: "scalar \<Rightarrow> scalar \<Rightarrow> exn + float64" where
  "scalar_sub (Num x) (Num y) = Inr (fsub x y)"
| "scalar_sub a b = Inl (TypeError ''unsupported operand type(s) for -'')"

fun scalar_mul :: "scalar \<Rightarrow> scalar \<Rightarrow> exn + float64" where
  "scalar_mul (Num x) (Num y) = Inr (fmul x y)"
| "scalar_mul a b = Inl (TypeError ''can't multiply sequence by non-int'')"

fun scalar_div :: "scalar \<Rightarrow> scalar \<Rightarrow> exn + float64" where
  "scalar_div (Num x) (Num y) = Inr (fdiv x y)"
| "scalar_div a b = Inl (TypeError ''unsupported operand type(s) for /'')"

text \<open>
  A pandas Series as the CSV loader produces it: a float64 column or an object column
  of strings. A DataFrame is its row count (the length of the index) and its columns
  by name.
\<close>

datatype series = FloatCol "float64 list" | ObjCol "string list"

record dataframe =
  nrows :: nat
  columns :: "(string \<times> series) list"

text \<open>\<^verbatim>\<open>len(df)\<close>\<close>

definition len_df :: "dataframe \<Rightarrow> nat" where
  "len_df df = nrows df"

text \<open>\<^verbatim>\<open>df[name]\<close>: KeyError when there is no such column.\<close>

definition getitem :: "dataframe \<Rightarrow> string \<Rightarrow> exn + series" where
  "getitem df name =
     (case map_of (columns df) name of
        None \<Rightarrow> Inl (KeyError name)
      | Some s \<Rightarrow> Inr s)"


text \<open>
  \<^verbatim>\<open>Series.mean()\<close> and \<^verbatim>\<open>Series.std()\<close> with pandas' defaults: nan entries are
  skipped, the variance divides by the count minus one, and the result is nan when
  that divisor is not positive (no entry for the mean, at most one for the standard
  deviation). On a column of strings both raise.
\<close>

definition dropna :: "float64 list \<Rightarrow> float64 list" where
  "dropna xs = filter (\<lambda>x. x \<noteq> NaN) xs"

definition fsum :: "float64 list \<Rightarrow> float64" where
  "fsum xs = foldl fadd (Fin 0) xs"

fun series_mean :: "series \<Rightarrow> exn + float64" where
  "series_mean (FloatCol xs) =
     (let v = dropna xs; n = length v
      in Inr (if n = 0 then NaN else fdiv (fsum v) (Fin (real n))))"
| "series_mean (ObjCol ss) = Inl (TypeError ''Could not convert string to numeric'')"

fun series_std :: "series \<Rightarrow> exn + float64" where
  "series_std (FloatCol xs) =
     (let v = dropna xs; n = length v
      in Inr (if n \<le> 1 then NaN
              else let avg = fdiv (fsum v) (Fin (real n));
                       sqr = map (\<lambda>x. fmul (fsub avg x) (fsub avg x)) v
                   in fsqrt (fdiv (fsum sqr) (Fin (real (n - 1))))))"
| "series_std (ObjCol ss) = Inl (TypeError ''could not convert string to float'')"

text \<open>
  \<^verbatim>\<open>Series.unique()\<close>: the distinct values in order of first appearance (all nan
  entries count as one value).
\<close>

fun uniq_aux :: "'a list \<Rightarrow> 'a list \<Rightarrow> 'a list" where
  "uniq_aux seen [] = []"
| "uniq_aux seen (x # xs) =
     (if x \<in> set seen then uniq_aux seen xs else x # uniq_aux (x # seen) xs)"

fun series_unique :: "series \<Rightarrow> scalar list" where
  "series_unique (FloatCol xs) = map Num (uniq_aux [] xs)"
| "series_unique (ObjCol ss) = map Str (uniq_aux [] ss)"

text \<open>\<^verbatim>\<open>a[0]\<close> on an array: IndexError when it is empty.\<close>

fun array_first :: "'a list \<Rightarrow> exn + 'a" where
  "array_first [] = Inl (IndexError ''index 0 is out of bounds for axis 0 with size 0'')"
| "array_first (x # xs) = Inr x"

text \<open>\<^verbatim>\<open>df[name].unique()[0]\<close>\<close>

definition first_value :: "dataframe \<Rightarrow> string \<Rightarrow> exn + scalar" where
  "first_value df name = bind (getitem df name) (\<lambda>s. array_first (series_unique s))"

text \<open>
  A Python dict is an association list in insertion order. Reading a missing key
  raises KeyError; storing replaces the value of a present key in place and appends
  a new key at the end. List indexing raises IndexError out of range.
\<close>

definition dict_get :: "(string \<times> 'v) list \<Rightarrow> string \<Rightarrow> exn + 'v" where
  "dict_get d k = (case map_of d k of None \<Rightarrow> Inl (KeyError k) | Some v \<Rightarrow> Inr v)"

fun dict_set :: "(string \<times> 'v) list \<Rightarrow> string \<Rightarrow> 'v \<Rightarrow> (string \<times> 'v) list" where
  "dict_set [] k v = [(k, v)]"
| "dict_set ((k', v') # d) k v =
     (if k' = k then (k, v) # d else (k', v') # dict_set d k v)"

definition list_getitem :: "'a list \<Rightarrow> nat \<Rightarrow> exn + 'a" where
  "list_getitem xs i =
     (if i < length xs then Inr (xs ! i) else Inl (IndexError ''list index out of range''))"

type_synonym scenario = "(string \<times> scalar) list"

datatype pyval =
    PyNone
  | PyBool bool
  | Scalar scalar
  | Scenarios "scenario list"

type_synonym result = "(string \<times> pyval) list"

section \<open>The tolerance calculator (utils/data\_processing.py)\<close>

text \<open>
  \<^verbatim>\<open>Predict_Best_Tolerance_based_on_Material\<close>, in the order of its statements. The
  body of the \<^verbatim>\<open>try\<close> is cut at the source's own comments; \<^verbatim>\<open>lsl\<close>, \<^verbatim>\<open>usl\<close> and
  \<^verbatim>\<open>current_gage_rr\<close> are scalars of whatever type their column has, so each
  operation on them may raise.
\<close>

text \<open>Lines 106--115: the statistics and the current specification.\<close>

record inputs =
  std_dev :: float64
  mean :: float64
  lsl :: scalar
  usl :: scalar
  current_tolerance :: float64
  current_gage_rr :: scalar

definition read_inputs :: "dataframe \<Rightarrow> exn + inputs" where
  "read_inputs df =
     bind (getitem df ''MeasValue'') (\<lambda>mv.
     bind (series_std mv) (\<lambda>sd.
     bind (getitem df ''MeasValue'') (\<lambda>mv'.
     bind (series_mean mv') (\<lambda>m.
     bind (first_value df ''LSL'') (\<lambda>l.
     bind (first_value df ''USL'') (\<lambda>u.
     bind (scalar_sub u l) (\<lambda>tol.
     bind (first_value df ''Gage_RR'') (\<lambda>g.
     Inr \<lparr>std_dev = sd, mean = m, lsl = l, usl = u,
          current_tolerance = tol, current_gage_rr = g\<rparr>))))))))"

text \<open>Lines 118--121: the current capability; returns (current\_cp, current\_cpk).\<close>

definition current_metrics :: "inputs \<Rightarrow> exn + float64 \<times> float64" where
  "current_metrics i =
     (let current_cp =
            (if fgt (std_dev i) (Fin 0)
             then fdiv (current_tolerance i) (fmul (Fin 6) (std_dev i)) else PInf)
      in
      bind (if fgt (std_dev i) (Fin 0)
            then bind (scalar_sub (Num (mean i)) (lsl i))
                   (\<lambda>d. Inr (fdiv d (fmul (Fin 3) (std_dev i))))
            else Inr PInf) (\<lambda>current_cpk_lower.
      bind (if fgt (std_dev i) (Fin 0)
            then bind (scalar_sub (usl i) (Num (mean i)))
                   (\<lambda>d. Inr (fdiv d (fmul (Fin 3) (std_dev i))))
            else Inr PInf) (\<lambda>current_cpk_upper.
      Inr (current_cp, py_min current_cpk_lower current_cpk_upper))))"

text \<open>The dict literal appended for each scenario.\<close>

definition scenario_dict ::
  "string \<Rightarrow> float64 \<Rightarrow> float64 \<Rightarrow> float64 \<Rightarrow> float64 \<Rightarrow> float64 \<Rightarrow> float64 \<Rightarrow> scenario" where
  "scenario_dict nm tol c ck grr lo hi =
     [(''name'', Str nm), (''tolerance'', Num tol), (''cp'', Num c), (''cpk'', Num ck),
      (''gage_rr'', Num grr), (''lsl'', Num lo), (''usl'', Num hi)]"

text \<open>Lines 124--180: the four scenarios, in the order they are appended.\<close>

definition build_scenarios :: "inputs \<Rightarrow> exn + scenario list" where
  "build_scenarios i =
     (let min_acceptable_tolerance = fmul (Fin 6) (std_dev i) in
      bind (scalar_mul (current_gage_rr i) (Num (current_tolerance i))) (\<lambda>gt1.
      let gage_rr_at_min = fdiv gt1 min_acceptable_tolerance;
          s1 = scenario_dict ''Minimum Acceptable Tolerance (Cp = 1.0)''
                 min_acceptable_tolerance (Fin 1.0) (Fin 1.0) gage_rr_at_min
                 (fsub (mean i) (fdiv min_acceptable_tolerance (Fin 2)))
                 (fadd (mean i) (fdiv min_acceptable_tolerance (Fin 2)));
          good_tolerance = fmul (fmul (Fin 6) (std_dev i)) (Fin 1.33) in
      bind (scalar_mul (current_gage_rr i) (Num (current_tolerance i))) (\<lambda>gt2.
      let gage_rr_at_good = fdiv gt2 good_tolerance;
          s2 = scenario_dict ''Good Quality Tolerance (Cp = 1.33)''
                 good_tolerance (Fin 1.33) (Fin 1.33) gage_rr_at_good
                 (fsub (mean i) (fdiv good_tolerance (Fin 2)))
                 (fadd (mean i) (fdiv good_tolerance (Fin 2)));
          high_tolerance = fmul (fmul (Fin 6) (std_dev i)) (Fin 1.67) in
      bind (scalar_mul (current_gage_rr i) (Num (current_tolerance i))) (\<lambda>gt3.
      let gage_rr_at_high = fdiv gt3 high_tolerance;
          s3 = scenario_dict ''High Quality Tolerance (Cp = 1.67)''
                 high_tolerance (Fin 1.67) (Fin 1.67) gage_rr_at_high
                 (fsub (mean i) (fdiv high_tolerance (Fin 2)))
                 (fadd (mean i) (fdiv high_tolerance (Fin 2))) in
      bind (scalar_mul (current_gage_rr i) (Num (current_tolerance i))) (\<lambda>gt4.
      let excellent_gage_tolerance = fdiv gt4 (Fin 10);
          cp_at_excellent = fdiv excellent_gage_tolerance (fmul (Fin 6) (std_dev i));
          s4 = scenario_dict ''Excellent Measurement System (Gage R&R = 10%)''
                 excellent_gage_tolerance cp_at_excellent cp_at_excellent (Fin 10.0)
                 (fsub (mean i) (fdiv excellent_gage_tolerance (Fin 2)))
                 (fadd (mean i) (fdiv excellent_gage_tolerance (Fin 2)))
      in Inr [s1, s2, s3, s4])))))"

text \<open>
  Lines 184--187: the loop that stores
  \<^verbatim>\<open>scenario["score"] = scenario["cp"] - (scenario["gage_rr"] / 100)\<close> in every scenario.
\<close>

definition set_score :: "scenario \<Rightarrow> exn + scenario" where
  "set_score s =
     bind (dict_get s ''cp'') (\<lambda>c.
     bind (dict_get s ''gage_rr'') (\<lambda>g.
     bind (scalar_div g (Num (Fin 100))) (\<lambda>q.
     bind (scalar_sub c (Num q)) (\<lambda>sc.
     Inr (dict_set s ''score'' (Num sc))))))"

fun score_loop :: "scenario list \<Rightarrow> exn + scenario list" where
  "score_loop [] = Inr []"
| "score_loop (s # ss) =
     bind (set_score s) (\<lambda>s'.
     bind (score_loop ss) (\<lambda>ss'.
     Inr (s' # ss')))"

text \<open>Lines 193--209: the scenario at index 1 and the dict built from it.\<close>

definition recommendation :: "float64 \<Rightarrow> float64 \<Rightarrow> scalar \<Rightarrow> scenario list \<Rightarrow> exn + result" where
  "recommendation current_cp current_cpk gage scenarios =
     bind (list_getitem scenarios 1) (\<lambda>best_scenario.
     bind (dict_get best_scenario ''tolerance'') (\<lambda>v1.
     bind (dict_get best_scenario ''lsl'') (\<lambda>v2.
     bind (dict_get best_scenario ''usl'') (\<lambda>v3.
     bind (dict_get best_scenario ''cp'') (\<lambda>v4.
     bind (dict_get best_scenario ''cpk'') (\<lambda>v5.
     bind (dict_get best_scenario ''gage_rr'') (\<lambda>v6.
     bind (dict_get best_scenario ''name'') (\<lambda>v7.
     Inr [(''best_tolerance'', Scalar v1),
          (''new_lsl'', Scalar v2),
          (''new_usl'', Scalar v3),
          (''resulting_cp'', Scalar v4),
          (''resulting_cpk'', Scalar v5),
          (''resulting_gage_rr'', Scalar v6),
          (''current_cp'', Scalar (Num current_cp)),
          (''current_cpk'', Scalar (Num current_cpk)),
          (''current_gage_rr'', Scalar gage),
          (''all_scenarios'', Scenarios scenarios),
          (''recommended_scenario'', Scalar v7),
          (''success'', PyBool True)]))))))))"

text \<open>The body of the \<^verbatim>\<open>try\<close>, lines 105--209.\<close>

definition predict_try :: "dataframe \<Rightarrow> exn + result" where
  "predict_try df =
     bind (read_inputs df) (\<lambda>i.
     bind (current_metrics i) (\<lambda>(current_cp, current_cpk).
     bind (build_scenarios i) (\<lambda>scenarios.
     bind (score_loop scenarios) (\<lambda>scored.
     recommendation current_cp current_cpk (current_gage_rr i) scored))))"

text \<open>The dict both failure paths return.\<close>

definition failure :: "string \<Rightarrow> result" where
  "failure msg =
     [(''best_tolerance'', PyNone), (''message'', Scalar (Str msg)), (''success'', PyBool False)]"

text \<open>
  The whole function. Its outcome is a returned dict (\<open>Inr\<close>) or an exception that
  leaves the function (\<open>Inl\<close>); \<^verbatim>\<open>except Exception as e\<close> turns every exception of the
  body into a returned dict.
\<close>

definition Predict_Best_Tolerance_based_on_Material :: "dataframe \<Rightarrow> exn + result" where
  "Predict_Best_Tolerance_based_on_Material df =
     (if len_df df = 0 then Inr (failure ''No data available for prediction'')
      else (case predict_try df of
              Inr r \<Rightarrow> Inr r
            | Inl e \<Rightarrow> Inr (failure (''Error in prediction: '' @ str_exn e))))"

section \<open>The forecast (app.py)\<close>


section \<open>Reading the result\<close>

text \<open>
  \<^verbatim>\<open>optimal_result["all_scenarios"][i][k]\<close>, the way app.py reads the scenarios
  (lines 207--215), on the outcome of a call.
\<close>

definition scenario_field :: "exn + result \<Rightarrow> nat \<Rightarrow> string \<Rightarrow> exn + scalar" where
  "scenario_field out i k =
     bind out (\<lambda>r.
     bind (dict_get r ''all_scenarios'') (\<lambda>v.
       case v of
         Scenarios scs \<Rightarrow> bind (list_getitem scs i) (\<lambda>s. dict_get s k)
       | _ \<Rightarrow> Inl (TypeError ''object is not subscriptable'')))"

section \<open>Example tables\<close>

text \<open>A table without rows (and without columns).\<close>

definition empty_table :: dataframe where
  "empty_table = \<lparr>nrows = 0, columns = []\<rparr>"

text \<open>
  Three measurements with mean 10 and sample standard deviation 0.05, against the
  limits 9.8 and 10.2 with a Gage R&R of 15, and the dict the calculator returns on it.
\<close>

definition spec_table :: dataframe where
  "spec_table = \<lparr>nrows = 3, columns =
     [(''MeasValue'', FloatCol [Fin 9.95, Fin 10.05, Fin 10]),
      (''LSL'', FloatCol [Fin 9.8, Fin 9.8, Fin 9.8]),
      (''USL'', FloatCol [Fin 10.2, Fin 10.2, Fin 10.2]),
      (''Gage_RR'', FloatCol [Fin 15, Fin 15, Fin 15])]\<rparr>"

definition spec_result :: result where
  "spec_result =
     [(''best_tolerance'', Scalar (Num (Fin 0.399))),
      (''new_lsl'', Scalar (Num (Fin 9.8005))),
      (''new_usl'', Scalar (Num (Fin 10.1995))),
      (''resulting_cp'', Scalar (Num (Fin 1.33))),
      (''resulting_cpk'', Scalar (Num (Fin 1.33))),
      (''resulting_gage_rr'', Scalar (Num (Fin (15 * 0.4 / 0.399)))),
      (''current_cp'', Scalar (Num (Fin (4 / 3)))),
      (''current_cpk'', Scalar (Num (Fin (4 / 3)))),
      (''current_gage_rr'', Scalar (Num (Fin 15))),
      (''all_scenarios'', Scenarios
         [scenario_dict ''Minimum Acceptable Tolerance (Cp = 1.0)''
            (Fin 0.3) (Fin 1) (Fin 1) (Fin 20) (Fin 9.85) (Fin 10.15)
            @ [(''score'', Num (Fin 0.8))],
          scenario_dict ''Good Quality Tolerance (Cp = 1.33)''
            (Fin 0.399) (Fin 1.33) (Fin 1.33) (Fin (15 * 0.4 / 0.399)) (Fin 9.8005) (Fin 10.1995)
            @ [(''score'', Num (Fin (15689 / 13300)))],
          scenario_dict ''High Quality Tolerance (Cp = 1.67)''
            (Fin 0.501) (Fin 1.67) (Fin 1.67) (Fin (15 * 0.4 / 0.501)) (Fin 9.7495) (Fin 10.2505)
            @ [(''score'', Num (Fin (25889 / 16700)))],
          scenario_dict ''Excellent Measurement System (Gage R&R = 10%)''
            (Fin 0.6) (Fin 2) (Fin 2) (Fin 10) (Fin 9.7) (Fin 10.3)
            @ [(''score'', Num (Fin 1.9))]]),
      (''recommended_scenario'', Scalar (Str ''Good Quality Tolerance (Cp = 1.33)'')),
      (''success'', PyBool True)]"

text \<open>Two equal measurements: the sample standard deviation is exactly 0.\<close>

definition constant_table :: dataframe where
  "constant_table = \<lparr>nrows = 2, columns =
     [(''MeasValue'', FloatCol [Fin 10, Fin 10]),
      (''LSL'', FloatCol [Fin 9.8, Fin 9.8]),
      (''USL'', FloatCol [Fin 10.2, Fin 10.2]),
      (''Gage_RR'', FloatCol [Fin 15, Fin 15])]\<rparr>"

text \<open>A table without an LSL column, and one whose LSL column holds text.\<close>

definition no_lsl_table :: dataframe where
  "no_lsl_table = \<lparr>nrows = 2, columns =
     [(''MeasValue'', FloatCol [Fin 9.9, Fin 10.1]),
      (''USL'', FloatCol [Fin 10.2, Fin 10.2]),
      (''Gage_RR'', FloatCol [Fin 15, Fin 15])]\<rparr>"

definition text_lsl_table :: dataframe where
  "text_lsl_table = \<lparr>nrows = 2, columns =
     [(''MeasValue'', FloatCol [Fin 9.9, Fin 10.1]),
      (''LSL'', ObjCol [''low'', ''low'']),
      (''USL'', FloatCol [Fin 10.2, Fin 10.2]),
      (''Gage_RR'', FloatCol [Fin 15, Fin 15])]\<rparr>"

section \<open>Basic facts\<close>

lemma bind_Inr [simp]: "bind (Inr x) f = f x"
  by (simp add: bind_def)

lemma bind_Inl [simp]: "bind (Inl e) f = Inl e"
  by (simp add: bind_def)

lemma bind_eq_Inr: "bind m f = Inr y \<longleftrightarrow> (\<exists>x. m = Inr x \<and> f x = Inr y)"
  by (cases m) simp_all

lemma scalar_sub_Inr: "scalar_sub a b = Inr z \<longleftrightarrow> (\<exists>x y. a = Num x \<and> b = Num y \<and> z = fsub x y)"
  by (cases a; cases b) auto

lemma scalar_mul_Inr: "scalar_mul a b = Inr z \<longleftrightarrow> (\<exists>x y. a = Num x \<and> b = Num y \<and> z = fmul x y)"
  by (cases a; cases b) auto

lemma read_inputs_Inr:
  assumes "read_inputs df = Inr i"
  shows "\<exists>mv l u. getitem df ''MeasValue'' = Inr mv \<and> series_std mv = Inr (std_dev i)
          \<and> series_mean mv = Inr (mean i)
          \<and> first_value df ''LSL'' = Inr (Num l) \<and> lsl i = Num l
          \<and> first_value df ''USL'' = Inr (Num u) \<and> usl i = Num u
          \<and> current_tolerance i = fsub u l
          \<and> first_value df ''Gage_RR'' = Inr (current_gage_rr i)"
  using assms unfolding read_inputs_def
  by (auto simp: bind_eq_Inr scalar_sub_Inr)

lemma read_inputs_numeric:
  assumes "getitem df ''MeasValue'' = Inr mv" "series_std mv = Inr sd" "series_mean mv = Inr m"
    and "first_value df ''LSL'' = Inr (Num l)" "first_value df ''USL'' = Inr (Num u)"
    and "first_value df ''Gage_RR'' = Inr g"
  shows "read_inputs df = Inr \<lparr>std_dev = sd, mean = m, lsl = Num l, usl = Num u,
          current_tolerance = fsub u l, current_gage_rr = g\<rparr>"
  using assms by (simp add: read_inputs_def)

lemma current_metrics_numeric:
  assumes "lsl i = Num l" "usl i = Num u"
  shows "current_metrics i = Inr
    (if fgt (std_dev i) (Fin 0) then fdiv (current_tolerance i) (fmul (Fin 6) (std_dev i)) else PInf,
     py_min (if fgt (std_dev i) (Fin 0) then fdiv (fsub (mean i) l) (fmul (Fin 3) (std_dev i)) else PInf)
            (if fgt (std_dev i) (Fin 0) then fdiv (fsub u (mean i)) (fmul (Fin 3) (std_dev i)) else PInf))"
  using assms by (simp add: current_metrics_def Let_def)

lemma build_scenarios_Inr: "build_scenarios i = Inr scs \<Longrightarrow> \<exists>g. current_gage_rr i = Num g"
  unfolding build_scenarios_def Let_def
  by (auto simp: bind_eq_Inr scalar_mul_Inr)

lemma build_scenarios_numeric:
  assumes "current_gage_rr i = Num g"
  shows "build_scenarios i = Inr
    [scenario_dict ''Minimum Acceptable Tolerance (Cp = 1.0)''
       (fmul (Fin 6) (std_dev i)) (Fin 1) (Fin 1)
       (fdiv (fmul g (current_tolerance i)) (fmul (Fin 6) (std_dev i)))
       (fsub (mean i) (fdiv (fmul (Fin 6) (std_dev i)) (Fin 2)))
       (fadd (mean i) (fdiv (fmul (Fin 6) (std_dev i)) (Fin 2))),
     scenario_dict ''Good Quality Tolerance (Cp = 1.33)''
       (fmul (fmul (Fin 6) (std_dev i)) (Fin 1.33)) (Fin 1.33) (Fin 1.33)
       (fdiv (fmul g (current_tolerance i)) (fmul (fmul (Fin 6) (std_dev i)) (Fin 1.33)))
       (fsub (mean i) (fdiv (fmul (fmul (Fin 6) (std_dev i)) (Fin 1.33)) (Fin 2)))
       (fadd (mean i) (fdiv (fmul (fmul (Fin 6) (std_dev i)) (Fin 1.33)) (Fin 2))),
     scenario_dict ''High Quality Tolerance (Cp = 1.67)''
       (fmul (fmul (Fin 6) (std_dev i)) (Fin 1.67)) (Fin 1.67) (Fin 1.67)
       (fdiv (fmul g (current_tolerance i)) (fmul (fmul (Fin 6) (std_dev i)) (Fin 1.67)))
       (fsub (mean i) (fdiv (fmul (fmul (Fin 6) (std_dev i)) (Fin 1.67)) (Fin 2)))
       (fadd (mean i) (fdiv (fmul (fmul (Fin 6) (std_dev i)) (Fin 1.67)) (Fin 2))),
     scenario_dict ''Excellent Measurement System (Gage R&R = 10%)''
       (fdiv (fmul g (current_tolerance i)) (Fin 10))
       (fdiv (fdiv (fmul g (current_tolerance i)) (Fin 10)) (fmul (Fin 6) (std_dev i)))
       (fdiv (fdiv (fmul g (current_tolerance i)) (Fin 10)) (fmul (Fin 6) (std_dev i)))
       (Fin 10)
       (fsub (mean i) (fdiv (fdiv (fmul g (current_tolerance i)) (Fin 10)) (Fin 2)))
       (fadd (mean i) (fdiv (fdiv (fmul g (current_tolerance i)) (Fin 10)) (Fin 2)))]"
  using assms by (simp add: build_scenarios_def Let_def)

lemma set_score_scenario_dict:
  "set_score (scenario_dict nm t c ck grr lo hi) =
     Inr (scenario_dict nm t c ck grr lo hi @ [(''score'', Num (fsub c (fdiv grr (Fin 100))))])"
  by (simp add: set_score_def scenario_dict_def dict_get_def)

lemma recommendation_index_1:
  "recommendation c ck gage
     [s0, scenario_dict nm t cp cpk grr lo hi @ [(''score'', x)], s2, s3] =
   Inr [(''best_tolerance'', Scalar (Num t)),
        (''new_lsl'', Scalar (Num lo)),
        (''new_usl'', Scalar (Num hi)),
        (''resulting_cp'', Scalar (Num cp)),
        (''resulting_cpk'', Scalar (Num cpk)),
        (''resulting_gage_rr'', Scalar (Num grr)),
        (''current_cp'', Scalar (Num c)),
        (''current_cpk'', Scalar (Num ck)),
        (''current_gage_rr'', Scalar gage),
        (''all_scenarios'', Scenarios
           [s0, scenario_dict nm t cp cpk grr lo hi @ [(''score'', x)], s2, s3]),
        (''recommended_scenario'', Scalar (Str nm)),
        (''success'', PyBool True)]"
  by (simp add: recommendation_def list_getitem_def dict_get_def scenario_dict_def)

lemma predict_try_Inr:
  assumes "predict_try df = Inr r"
  shows "\<exists>i g l u. read_inputs df = Inr i \<and> current_gage_rr i = Num g
           \<and> lsl i = Num l \<and> usl i = Num u"
proof -
  from assms obtain i scs where ri: "read_inputs df = Inr i" and bs: "build_scenarios i = Inr scs"
    unfolding predict_try_def by (auto simp: bind_eq_Inr)
  from read_inputs_Inr[OF ri] build_scenarios_Inr[OF bs] ri show ?thesis by blast
qed

lemma predict_try_numeric:
  assumes "read_inputs df = Inr i" "current_gage_rr i = Num g" "lsl i = Num l" "usl i = Num u"
  shows "predict_try df =
    (let sd = std_dev i; m = mean i; gt = fmul g (current_tolerance i);
         t0 = fmul (Fin 6) sd;
         t1 = fmul (fmul (Fin 6) sd) (Fin 1.33);
         t2 = fmul (fmul (Fin 6) sd) (Fin 1.67);
         t3 = fdiv gt (Fin 10);
         c3 = fdiv t3 (fmul (Fin 6) sd)
     in Inr
       [(''best_tolerance'', Scalar (Num t1)),
        (''new_lsl'', Scalar (Num (fsub m (fdiv t1 (Fin 2))))),
        (''new_usl'', Scalar (Num (fadd m (fdiv t1 (Fin 2))))),
        (''resulting_cp'', Scalar (Num (Fin 1.33))),
        (''resulting_cpk'', Scalar (Num (Fin 1.33))),
        (''resulting_gage_rr'', Scalar (Num (fdiv gt t1))),
        (''current_cp'', Scalar (Num
           (if fgt sd (Fin 0) then fdiv (current_tolerance i) (fmul (Fin 6) sd) else PInf))),
        (''current_cpk'', Scalar (Num
           (py_min (if fgt sd (Fin 0) then fdiv (fsub m l) (fmul (Fin 3) sd) else PInf)
                   (if fgt sd (Fin 0) then fdiv (fsub u m) (fmul (Fin 3) sd) else PInf)))),
        (''current_gage_rr'', Scalar (Num g)),
        (''all_scenarios'', Scenarios
           [scenario_dict ''Minimum Acceptable Tolerance (Cp = 1.0)''
              t0 (Fin 1) (Fin 1) (fdiv gt t0)
              (fsub m (fdiv t0 (Fin 2))) (fadd m (fdiv t0 (Fin 2)))
              @ [(''score'', Num (fsub (Fin 1) (fdiv (fdiv gt t0) (Fin 100))))],
            scenario_dict ''Good Quality Tolerance (Cp = 1.33)''
              t1 (Fin 1.33) (Fin 1.33) (fdiv gt t1)
              (fsub m (fdiv t1 (Fin 2))) (fadd m (fdiv t1 (Fin 2)))
              @ [(''score'', Num (fsub (Fin 1.33) (fdiv (fdiv gt t1) (Fin 100))))],
            scenario_dict ''High Quality Tolerance (Cp = 1.67)''
              t2 (Fin 1.67) (Fin 1.67) (fdiv gt t2)
              (fsub m (fdiv t2 (Fin 2))) (fadd m (fdiv t2 (Fin 2)))
              @ [(''score'', Num (fsub (Fin 1.67) (fdiv (fdiv gt t2) (Fin 100))))],
            scenario_dict ''Excellent Measurement System (Gage R&R = 10%)''
              t3 c3 c3 (Fin 10)
              (fsub m (fdiv t3 (Fin 2))) (fadd m (fdiv t3 (Fin 2)))
              @ [(''score'', Num (fsub c3 (fdiv (Fin 10) (Fin 100))))]]),
        (''recommended_scenario'', Scalar (Str ''Good Quality Tolerance (Cp = 1.33)'')),
        (''success'', PyBool True)])"
  unfolding predict_try_def Let_def
  by (simp add: assms current_metrics_numeric[OF assms(3,4)] build_scenarios_numeric[OF assms(2)]
        set_score_scenario_dict recommendation_index_1)

lemma dict_get_failure_success: "dict_get (failure msg) ''success'' = Inr (PyBool False)"
  by (simp add: failure_def dict_get_def)

lemma predict_success:
  assumes "Predict_Best_Tolerance_based_on_Material df = Inr r"
    and "dict_get r ''success'' = Inr (PyBool True)"
  shows "predict_try df = Inr r"
proof (cases "len_df df = 0")
  case True
  with assms show ?thesis
    by (auto simp: Predict_Best_Tolerance_based_on_Material_def dict_get_failure_success)
next
  case False
  with assms show ?thesis
    by (cases "predict_try df")
       (auto simp: Predict_Best_Tolerance_based_on_Material_def dict_get_failure_success)
qed

lemma predict_of_try:
  assumes "len_df df \<noteq> 0" "predict_try df = Inr r"
  shows "Predict_Best_Tolerance_based_on_Material df = Inr r"
  using assms by (simp add: Predict_Best_Tolerance_based_on_Material_def)

text \<open>The decomposition every success-path theorem starts from.\<close>

lemma success_inputs:
  assumes "Predict_Best_Tolerance_based_on_Material df = Inr r"
    and "dict_get r ''success'' = Inr (PyBool True)"
  obtains i g l u mv where
    "read_inputs df = Inr i" "current_gage_rr i = Num g" "lsl i = Num l" "usl i = Num u"
    "getitem df ''MeasValue'' = Inr mv" "series_std mv = Inr (std_dev i)"
    "series_mean mv = Inr (mean i)"
    "first_value df ''LSL'' = Inr (Num l)" "first_value df ''USL'' = Inr (Num u)"
    "first_value df ''Gage_RR'' = Inr (Num g)" "current_tolerance i = fsub u l"
    "predict_try df = Inr r"
proof -
  have pt: "predict_try df = Inr r" by (rule predict_success[OF assms])
  from predict_try_Inr[OF pt] obtain i g l u where
    a: "read_inputs df = Inr i" "current_gage_rr i = Num g" "lsl i = Num l" "usl i = Num u"
    by blast
  from read_inputs_Inr[OF a(1)] a obtain mv where
    "getitem df ''MeasValue'' = Inr mv" "series_std mv = Inr (std_dev i)"
    "series_mean mv = Inr (mean i)"
    "first_value df ''LSL'' = Inr (Num l)" "first_value df ''USL'' = Inr (Num u)"
    "first_value df ''Gage_RR'' = Inr (Num g)" "current_tolerance i = fsub u l"
    by auto
  with a pt that show ?thesis by blast
qed

section \<open>The calculator on the example tables\<close>

lemma sqrt_400: "sqrt (1 / 400) = 1 / 20"
  by (rule real_sqrt_unique) (simp_all add: power2_eq_square)

lemma std_spec: "series_std (FloatCol [Fin 9.95, Fin 10.05, Fin 10]) = Inr (Fin 0.05)"
  by (simp add: dropna_def fsum_def fsub_def Let_def power2_eq_square sqrt_400)

lemma mean_spec: "series_mean (FloatCol [Fin 9.95, Fin 10.05, Fin 10]) = Inr (Fin 10)"
  by (simp add: dropna_def fsum_def Let_def)

lemma read_inputs_spec_table:
  "read_inputs spec_table = Inr \<lparr>std_dev = Fin 0.05, mean = Fin 10, lsl = Num (Fin 9.8),
     usl = Num (Fin 10.2), current_tolerance = Fin 0.4, current_gage_rr = Num (Fin 15)\<rparr>"
proof -
  have "read_inputs spec_table = Inr \<lparr>std_dev = Fin 0.05, mean = Fin 10, lsl = Num (Fin 9.8),
     usl = Num (Fin 10.2), current_tolerance = fsub (Fin 10.2) (Fin 9.8), current_gage_rr = Num (Fin 15)\<rparr>"
    by (rule read_inputs_numeric[OF _ std_spec mean_spec])
       (simp_all add: getitem_def first_value_def spec_table_def)
  then show ?thesis by (simp add: fsub_def)
qed

lemma predict_try_spec_table: "predict_try spec_table = Inr spec_result"
  unfolding predict_try_def read_inputs_spec_table
  by (simp add: current_metrics_numeric[where l = "Fin 9.8" and u = "Fin 10.2"]
       build_scenarios_numeric[where g = "Fin 15"] set_score_scenario_dict
       recommendation_index_1 spec_result_def fgt_def fsub_def py_min_def)

lemma predict_spec_table:
  "Predict_Best_Tolerance_based_on_Material spec_table = Inr spec_result"
proof -
  have "len_df spec_table = 3" by (simp add: len_df_def spec_table_def)
  then show ?thesis
    by (simp add: Predict_Best_Tolerance_based_on_Material_def predict_try_spec_table)
qed

lemma py_min_Fin: "py_min (Fin a) (Fin b) = Fin (min a b)"
  by (simp add: py_min_def min_def)

lemma spec_table_facts:
  "len_df spec_table \<noteq> 0"
  "getitem spec_table ''MeasValue'' = Inr (FloatCol [Fin 9.95, Fin 10.05, Fin 10])"
  "first_value spec_table ''LSL'' = Inr (Num (Fin 9.8))"
  "first_value spec_table ''USL'' = Inr (Num (Fin 10.2))"
  "first_value spec_table ''Gage_RR'' = Inr (Num (Fin 15))"
  by (simp_all add: len_df_def getitem_def first_value_def spec_table_def)

lemma spec_result_success: "dict_get spec_result ''success'' = Inr (PyBool True)"
  by (simp add: spec_result_def dict_get_def)

lemma std_constant: "series_std (FloatCol [Fin 10, Fin 10]) = Inr (Fin 0)"
  by (simp add: dropna_def fsum_def fsub_def Let_def)


lemma constant_table_facts:
  "len_df constant_table \<noteq> 0"
  "getitem constant_table ''MeasValue'' = Inr (FloatCol [Fin 10, Fin 10])"
  "first_value constant_table ''LSL'' = Inr (Num (Fin 9.8))"
  "first_value constant_table ''USL'' = Inr (Num (Fin 10.2))"
  "first_value constant_table ''Gage_RR'' = Inr (Num (Fin 15))"
  by (simp_all add: len_df_def getitem_def first_value_def constant_table_def)

lemma std_Inr_mean_Inr: "series_std mv = Inr sd \<Longrightarrow> \<exists>m. series_mean mv = Inr m"
  by (cases mv) (simp_all add: Let_def)


lemma predict_try_no_lsl: "predict_try no_lsl_table = Inl (KeyError ''LSL'')"
  by (simp add: predict_try_def read_inputs_def getitem_def first_value_def no_lsl_table_def
        dropna_def Let_def)

lemma predict_try_text_lsl:
  "predict_try text_lsl_table = Inl (TypeError ''unsupported operand type(s) for -'')"
  by (simp add: predict_try_def read_inputs_def getitem_def first_value_def text_lsl_table_def
        dropna_def Let_def)

lemma failing_tables_nonempty: "len_df no_lsl_table \<noteq> 0" "len_df text_lsl_table \<noteq> 0"
  by (simp_all add: len_df_def no_lsl_table_def text_lsl_table_def)


section \<open>The empty table\<close>

text \<open>
  C6. A table with zero rows is answered before the \<^verbatim>\<open>try\<close> block is entered: whatever
  its columns hold, the result is the failure dict with success False and the message
  "No data available for prediction".
\<close>

theorem empty_table_short_circuits:
  assumes "len_df df = 0"
  shows "Predict_Best_Tolerance_based_on_Material df =
           Inr [(''best_tolerance'', PyNone),
                (''message'', Scalar (Str ''No data available for prediction'')),
                (''success'', PyBool False)]"
  using assms by (simp add: Predict_Best_Tolerance_based_on_Material_def failure_def)

theorem empty_table_short_circuits_witness:
  "len_df empty_table = 0
   \<and> Predict_Best_Tolerance_based_on_Material empty_table =
           Inr [(''best_tolerance'', PyNone),
                (''message'', Scalar (Str ''No data available for prediction'')),
                (''success'', PyBool False)]"
proof -
  have h: "len_df empty_table = 0" by (simp add: len_df_def empty_table_def)
  from empty_table_short_circuits[OF h] h show ?thesis by simp
qed

section \<open>The recommendation\<close>

text \<open>
  C1. Whenever the calculator succeeds on a non-empty table, the recommendation is the
  scenario at index 1 of the list, named "Good Quality Tolerance (Cp = 1.33)": the
  fields best\_tolerance, new\_lsl, new\_usl, resulting\_cp, resulting\_cpk,
  resulting\_gage\_rr and recommended\_scenario of the result are that scenario's
  tolerance, lsl, usl, cp, cpk, gage\_rr and name. Every scenario carries the score
  cp - gage\_rr / 100, and no score takes part in the choice.
\<close>

theorem recommendation_is_scenario_1:
  assumes "len_df df \<noteq> 0"
    and "Predict_Best_Tolerance_based_on_Material df = Inr r"
    and "dict_get r ''success'' = Inr (PyBool True)"
  shows "\<exists>scs best t lo hi c ck grr.
      dict_get r ''all_scenarios'' = Inr (Scenarios scs)
    \<and> list_getitem scs 1 = Inr best
    \<and> dict_get best ''name'' = Inr (Str ''Good Quality Tolerance (Cp = 1.33)'')
    \<and> dict_get r ''recommended_scenario'' = Inr (Scalar (Str ''Good Quality Tolerance (Cp = 1.33)''))
    \<and> dict_get best ''tolerance'' = Inr t \<and> dict_get r ''best_tolerance'' = Inr (Scalar t)
    \<and> dict_get best ''lsl'' = Inr lo \<and> dict_get r ''new_lsl'' = Inr (Scalar lo)
    \<and> dict_get best ''usl'' = Inr hi \<and> dict_get r ''new_usl'' = Inr (Scalar hi)
    \<and> dict_get best ''cp'' = Inr c \<and> dict_get r ''resulting_cp'' = Inr (Scalar c)
    \<and> dict_get best ''cpk'' = Inr ck \<and> dict_get r ''resulting_cpk'' = Inr (Scalar ck)
    \<and> dict_get best ''gage_rr'' = Inr grr \<and> dict_get r ''resulting_gage_rr'' = Inr (Scalar grr)
    \<and> (\<forall>s \<in> set scs. \<exists>x y. dict_get s ''cp'' = Inr (Num x) \<and> dict_get s ''gage_rr'' = Inr (Num y)
          \<and> dict_get s ''score'' = Inr (Num (fsub x (fdiv y (Fin 100)))))"
proof -
  from assms(2,3) obtain i g l u where
    a: "read_inputs df = Inr i" "current_gage_rr i = Num g" "lsl i = Num l" "usl i = Num u"
    and pt: "predict_try df = Inr r"
    by (rule success_inputs)
  from predict_try_numeric[OF a] pt show ?thesis
    by (simp add: Let_def dict_get_def scenario_dict_def list_getitem_def)
qed


text \<open>
  On the example table the Excellent scenario scores higher (1.9) than the recommended
  one.
\<close>

theorem recommendation_is_scenario_1_witness:
  "len_df spec_table \<noteq> 0
   \<and> Predict_Best_Tolerance_based_on_Material spec_table = Inr spec_result
   \<and> dict_get spec_result ''success'' = Inr (PyBool True)
   \<and> scenario_field (Inr spec_result) 1 ''name'' =
        Inr (Str ''Good Quality Tolerance (Cp = 1.33)'')
   \<and> dict_get spec_result ''recommended_scenario'' =
        Inr (Scalar (Str ''Good Quality Tolerance (Cp = 1.33)''))
   \<and> scenario_field (Inr spec_result) 1 ''tolerance'' = Inr (Num (Fin 0.399))
   \<and> dict_get spec_result ''best_tolerance'' = Inr (Scalar (Num (Fin 0.399)))
   \<and> scenario_field (Inr spec_result) 1 ''lsl'' = Inr (Num (Fin 9.8005))
   \<and> dict_get spec_result ''new_lsl'' = Inr (Scalar (Num (Fin 9.8005)))
   \<and> scenario_field (Inr spec_result) 1 ''usl'' = Inr (Num (Fin 10.1995))
   \<and> dict_get spec_result ''new_usl'' = Inr (Scalar (Num (Fin 10.1995)))
   \<and> scenario_field (Inr spec_result) 1 ''cp'' = Inr (Num (Fin 1.33))
   \<and> dict_get spec_result ''resulting_cp'' = Inr (Scalar (Num (Fin 1.33)))
   \<and> scenario_field (Inr spec_result) 1 ''cpk'' = Inr (Num (Fin 1.33))
   \<and> dict_get spec_result ''resulting_cpk'' = Inr (Scalar (Num (Fin 1.33)))
   \<and> scenario_field (Inr spec_result) 1 ''gage_rr'' = Inr (Num (Fin (15 * 0.4 / 0.399)))
   \<and> dict_get spec_result ''resulting_gage_rr'' = Inr (Scalar (Num (Fin (15 * 0.4 / 0.399))))
   \<and> scenario_field (Inr spec_result) 1 ''score'' = Inr (Num (Fin (15689 / 13300)))
   \<and> scenario_field (Inr spec_result) 3 ''score'' = Inr (Num (Fin 1.9))
   \<and> flt (Fin (15689 / 13300)) (Fin 1.9)"
proof -
  note h = spec_table_facts(1) predict_spec_table spec_result_success
  have "scenario_field (Inr spec_result) 1 ''score'' = Inr (Num (Fin (15689 / 13300)))"
    "scenario_field (Inr spec_result) 3 ''score'' = Inr (Num (Fin 1.9))"
    "flt (Fin (15689 / 13300)) (Fin 1.9)"
    by (simp_all add: scenario_field_def spec_result_def dict_get_def list_getitem_def
          scenario_dict_def)
  with recommendation_is_scenario_1[OF h] h show ?thesis
    by (simp add: scenario_field_def spec_result_def dict_get_def list_getitem_def
          scenario_dict_def fsub_def)
qed

section \<open>Current capability\<close>

text \<open>
  C2. On a non-empty table whose MeasValue column has a sample standard deviation
  sd > 0, a success result has current\_cp = (USL[0] - LSL[0]) / (6 * sd) and
  current\_cpk = min((mean - LSL[0]) / (3 * sd), (USL[0] - mean) / (3 * sd)), where
  mean is the average of MeasValue and LSL[0], USL[0] are the first values of their
  columns. For finite values these are the quotients and the minimum of real
  arithmetic.
\<close>

theorem current_capability_formulas:
  assumes "len_df df \<noteq> 0"
    and "getitem df ''MeasValue'' = Inr mv" and "series_std mv = Inr sd"
    and "series_mean mv = Inr m" and "fgt sd (Fin 0)"
    and "first_value df ''LSL'' = Inr (Num l)" and "first_value df ''USL'' = Inr (Num u)"
    and "Predict_Best_Tolerance_based_on_Material df = Inr r"
    and "dict_get r ''success'' = Inr (PyBool True)"
  shows "dict_get r ''current_cp'' = Inr (Scalar (Num (fdiv (fsub u l) (fmul (Fin 6) sd))))
       \<and> dict_get r ''current_cpk'' = Inr (Scalar (Num
            (py_min (fdiv (fsub m l) (fmul (Fin 3) sd)) (fdiv (fsub u m) (fmul (Fin 3) sd)))))
       \<and> (\<forall>s a x y. sd = Fin s \<and> m = Fin a \<and> l = Fin x \<and> u = Fin y \<longrightarrow>
            dict_get r ''current_cp'' = Inr (Scalar (Num (Fin ((y - x) / (6 * s)))))
          \<and> dict_get r ''current_cpk'' = Inr (Scalar (Num
               (Fin (min ((a - x) / (3 * s)) ((y - a) / (3 * s)))))))"
proof -
  from assms(8,9) obtain i g l' u' mv' where
    a: "read_inputs df = Inr i" "current_gage_rr i = Num g" "lsl i = Num l'" "usl i = Num u'"
    and b: "getitem df ''MeasValue'' = Inr mv'" "series_std mv' = Inr (std_dev i)"
      "series_mean mv' = Inr (mean i)"
      "first_value df ''LSL'' = Inr (Num l')" "first_value df ''USL'' = Inr (Num u')"
    and t: "current_tolerance i = fsub u' l'"
    and pt: "predict_try df = Inr r"
    by (rule success_inputs)
  from b assms have e: "std_dev i = sd" "mean i = m" "l' = l" "u' = u" by simp_all
  have r: "dict_get r ''current_cp'' = Inr (Scalar (Num (fdiv (fsub u l) (fmul (Fin 6) sd))))"
    "dict_get r ''current_cpk'' = Inr (Scalar (Num
            (py_min (fdiv (fsub m l) (fmul (Fin 3) sd)) (fdiv (fsub u m) (fmul (Fin 3) sd)))))"
    using predict_try_numeric[OF a] pt e t assms(5)
    by (simp_all add: Let_def dict_get_def)
  have "fdiv (fsub (Fin y) (Fin x)) (fmul (Fin 6) (Fin s)) = Fin ((y - x) / (6 * s))"
    and "py_min (fdiv (fsub (Fin a) (Fin x)) (fmul (Fin 3) (Fin s)))
                (fdiv (fsub (Fin y) (Fin a)) (fmul (Fin 3) (Fin s)))
         = Fin (min ((a - x) / (3 * s)) ((y - a) / (3 * s)))"
    if "fgt (Fin s) (Fin 0)" for s a x y
    using that by (simp_all add: fsub_def fgt_def py_min_Fin)
  with r assms(5) show ?thesis by auto
qed

theorem current_capability_formulas_witness:
  "len_df spec_table \<noteq> 0
   \<and> getitem spec_table ''MeasValue'' = Inr (FloatCol [Fin 9.95, Fin 10.05, Fin 10])
   \<and> series_std (FloatCol [Fin 9.95, Fin 10.05, Fin 10]) = Inr (Fin 0.05)
   \<and> series_mean (FloatCol [Fin 9.95, Fin 10.05, Fin 10]) = Inr (Fin 10)
   \<and> fgt (Fin 0.05) (Fin 0)
   \<and> first_value spec_table ''LSL'' = Inr (Num (Fin 9.8))
   \<and> first_value spec_table ''USL'' = Inr (Num (Fin 10.2))
   \<and> Predict_Best_Tolerance_based_on_Material spec_table = Inr spec_result
   \<and> dict_get spec_result ''success'' = Inr (PyBool True)
   \<and> dict_get spec_result ''current_cp'' =
        Inr (Scalar (Num (fdiv (fsub (Fin 10.2) (Fin 9.8)) (fmul (Fin 6) (Fin 0.05)))))
   \<and> dict_get spec_result ''current_cpk'' = Inr (Scalar (Num
        (py_min (fdiv (fsub (Fin 10) (Fin 9.8)) (fmul (Fin 3) (Fin 0.05)))
                (fdiv (fsub (Fin 10.2) (Fin 10)) (fmul (Fin 3) (Fin 0.05))))))
   \<and> dict_get spec_result ''current_cp'' =
        Inr (Scalar (Num (Fin ((10.2 - 9.8) / (6 * 0.05)))))
   \<and> dict_get spec_result ''current_cpk'' = Inr (Scalar (Num
        (Fin (min ((10 - 9.8) / (3 * 0.05)) ((10.2 - 10) / (3 * 0.05))))))"
proof -
  have g: "fgt (Fin 0.05) (Fin 0)" by (simp add: fgt_def)
  note h = spec_table_facts(1,2) std_spec mean_spec g spec_table_facts(3,4)
    predict_spec_table spec_result_success
  from current_capability_formulas[OF h] h show ?thesis by blast
qed

section \<open>The four scenarios\<close>



section \<open>Inverse proportionality\<close>




section \<open>Centred scenarios\<close>

text \<open>
  C5. In every scenario of a success result, cpk is the same value as cp, and the limits
  are lsl = mean - tolerance / 2 and usl = mean + tolerance / 2, where mean is the
  average of MeasValue.
\<close>

theorem scenario_cpk_and_limits:
  assumes "len_df df \<noteq> 0"
    and "getitem df ''MeasValue'' = Inr mv" and "series_mean mv = Inr m"
    and "Predict_Best_Tolerance_based_on_Material df = Inr r"
    and "dict_get r ''success'' = Inr (PyBool True)"
  shows "\<exists>scs. dict_get r ''all_scenarios'' = Inr (Scenarios scs) \<and> length scs = 4
    \<and> (\<forall>s \<in> set scs. \<exists>t c.
          dict_get s ''tolerance'' = Inr (Num t)
        \<and> dict_get s ''cp'' = Inr (Num c) \<and> dict_get s ''cpk'' = Inr (Num c)
        \<and> dict_get s ''lsl'' = Inr (Num (fsub m (fdiv t (Fin 2))))
        \<and> dict_get s ''usl'' = Inr (Num (fadd m (fdiv t (Fin 2)))))"
proof -
  from assms(4,5) obtain i g l u mv' where
    a: "read_inputs df = Inr i" "current_gage_rr i = Num g" "lsl i = Num l" "usl i = Num u"
    and b: "getitem df ''MeasValue'' = Inr mv'" "series_mean mv' = Inr (mean i)"
    and pt: "predict_try df = Inr r"
    by (rule success_inputs)
  from b assms have e: "mean i = m" by simp
  from predict_try_numeric[OF a] pt e show ?thesis
    by (simp add: Let_def dict_get_def scenario_dict_def)
qed

theorem scenario_cpk_and_limits_witness:
  "len_df spec_table \<noteq> 0
   \<and> getitem spec_table ''MeasValue'' = Inr (FloatCol [Fin 9.95, Fin 10.05, Fin 10])
   \<and> series_mean (FloatCol [Fin 9.95, Fin 10.05, Fin 10]) = Inr (Fin 10)
   \<and> Predict_Best_Tolerance_based_on_Material spec_table = Inr spec_result
   \<and> dict_get spec_result ''success'' = Inr (PyBool True)
   \<and> scenario_field (Inr spec_result) 0 ''tolerance'' = Inr (Num (Fin 0.3))
   \<and> scenario_field (Inr spec_result) 0 ''cp'' = Inr (Num (Fin 1))
   \<and> scenario_field (Inr spec_result) 0 ''cpk'' = Inr (Num (Fin 1))
   \<and> scenario_field (Inr spec_result) 0 ''lsl'' =
        Inr (Num (fsub (Fin 10) (fdiv (Fin 0.3) (Fin 2))))
   \<and> scenario_field (Inr spec_result) 0 ''usl'' =
        Inr (Num (fadd (Fin 10) (fdiv (Fin 0.3) (Fin 2))))
   \<and> scenario_field (Inr spec_result) 3 ''tolerance'' = Inr (Num (Fin 0.6))
   \<and> scenario_field (Inr spec_result) 3 ''cp'' = Inr (Num (Fin 2))
   \<and> scenario_field (Inr spec_result) 3 ''cpk'' = Inr (Num (Fin 2))
   \<and> scenario_field (Inr spec_result) 3 ''lsl'' =
        Inr (Num (fsub (Fin 10) (fdiv (Fin 0.6) (Fin 2))))
   \<and> scenario_field (Inr spec_result) 3 ''usl'' =
        Inr (Num (fadd (Fin 10) (fdiv (Fin 0.6) (Fin 2))))
   \<and> scenario_field (Inr spec_result) 4 ''cp'' = Inl (IndexError ''list index out of range'')"
proof -
  note h = spec_table_facts(1,2) mean_spec predict_spec_table spec_result_success
  from scenario_cpk_and_limits[OF h] h show ?thesis
    by (simp add: scenario_field_def spec_result_def dict_get_def list_getitem_def
          scenario_dict_def fsub_def)
qed

section \<open>Exceptions\<close>

text \<open>
  C7. The calculator always returns a dict and never lets an exception out. On a
  non-empty table, an exception \<open>e\<close> raised in the \<^verbatim>\<open>try\<close> block (a missing
  column, an index error, a type error) becomes a result with success False and the
  message "Error in prediction: " followed by \<^verbatim>\<open>str(e)\<close>.
\<close>

theorem exceptions_become_failure_results:
  "(\<exists>r. Predict_Best_Tolerance_based_on_Material df = Inr r)
   \<and> (len_df df \<noteq> 0 \<and> predict_try df = Inl e \<longrightarrow>
        (\<exists>r. Predict_Best_Tolerance_based_on_Material df = Inr r
           \<and> dict_get r ''success'' = Inr (PyBool False)
           \<and> dict_get r ''message'' =
                Inr (Scalar (Str (''Error in prediction: '' @ str_exn e)))))"
  by (cases "predict_try df")
     (auto simp: Predict_Best_Tolerance_based_on_Material_def failure_def dict_get_def)

theorem exceptions_become_failure_results_witness:
  "len_df no_lsl_table \<noteq> 0 \<and> predict_try no_lsl_table = Inl (KeyError ''LSL'')
   \<and> (\<exists>r. Predict_Best_Tolerance_based_on_Material no_lsl_table = Inr r
           \<and> dict_get r ''success'' = Inr (PyBool False)
           \<and> dict_get r ''message'' =
                Inr (Scalar (Str (''Error in prediction: '' @ [CHR 0x27] @ ''LSL'' @ [CHR 0x27]))))
   \<and> len_df text_lsl_table \<noteq> 0
   \<and> predict_try text_lsl_table = Inl (TypeError ''unsupported operand type(s) for -'')
   \<and> (\<exists>r. Predict_Best_Tolerance_based_on_Material text_lsl_table = Inr r
           \<and> dict_get r ''success'' = Inr (PyBool False)
           \<and> dict_get r ''message'' =
                Inr (Scalar (Str ''Error in prediction: unsupported operand type(s) for -'')))"
  using exceptions_become_failure_results[of no_lsl_table "KeyError ''LSL''"]
    exceptions_become_failure_results[of text_lsl_table "TypeError ''unsupported operand type(s) for -''"]
    failing_tables_nonempty predict_try_no_lsl predict_try_text_lsl
  by simp

section \<open>Zero standard deviation\<close>

text \<open>
  C8. On a non-empty table with numeric LSL, USL and Gage\_RR columns whose MeasValue
  sample standard deviation is exactly 0, no statement of the \<^verbatim>\<open>try\<close> block raises,
  the calculator returns a success result, and its current\_cp and current\_cpk are
  positive infinity.
\<close>

theorem zero_std_infinite_capability:
  assumes "len_df df \<noteq> 0"
    and "getitem df ''MeasValue'' = Inr mv" and "series_std mv = Inr (Fin 0)"
    and "first_value df ''LSL'' = Inr (Num l)" and "first_value df ''USL'' = Inr (Num u)"
    and "first_value df ''Gage_RR'' = Inr (Num g)"
  shows "\<exists>r. predict_try df = Inr r
    \<and> Predict_Best_Tolerance_based_on_Material df = Inr r
    \<and> dict_get r ''success'' = Inr (PyBool True)
    \<and> dict_get r ''current_cp'' = Inr (Scalar (Num PInf))
    \<and> dict_get r ''current_cpk'' = Inr (Scalar (Num PInf))"
proof -
  from std_Inr_mean_Inr[OF assms(3)] obtain m where m: "series_mean mv = Inr m" ..
  let ?i = "\<lparr>std_dev = Fin 0, mean = m, lsl = Num l, usl = Num u,
          current_tolerance = fsub u l, current_gage_rr = Num g\<rparr>"
  have ri: "read_inputs df = Inr ?i"
    by (rule read_inputs_numeric[OF assms(2,3) m assms(4,5,6)])
  have pt: "\<exists>r. predict_try df = Inr r
    \<and> dict_get r ''success'' = Inr (PyBool True)
    \<and> dict_get r ''current_cp'' = Inr (Scalar (Num PInf))
    \<and> dict_get r ''current_cpk'' = Inr (Scalar (Num PInf))"
    using predict_try_numeric[OF ri, of g l u]
    by (simp add: Let_def dict_get_def fgt_def py_min_def)
  with assms(1) show ?thesis
    by (auto simp: Predict_Best_Tolerance_based_on_Material_def)
qed

theorem zero_std_infinite_capability_witness:
  "len_df constant_table \<noteq> 0
   \<and> getitem constant_table ''MeasValue'' = Inr (FloatCol [Fin 10, Fin 10])
   \<and> series_std (FloatCol [Fin 10, Fin 10]) = Inr (Fin 0)
   \<and> first_value constant_table ''LSL'' = Inr (Num (Fin 9.8))
   \<and> first_value constant_table ''USL'' = Inr (Num (Fin 10.2))
   \<and> first_value constant_table ''Gage_RR'' = Inr (Num (Fin 15))
   \<and> (\<exists>r. predict_try constant_table = Inr r
    \<and> Predict_Best_Tolerance_based_on_Material constant_table = Inr r
    \<and> dict_get r ''success'' = Inr (PyBool True)
    \<and> dict_get r ''current_cp'' = Inr (Scalar (Num PInf))
    \<and> dict_get r ''current_cpk'' = Inr (Scalar (Num PInf)))"
proof -
  note h = constant_table_facts(1,2) std_constant constant_table_facts(3,4,5)
  from zero_std_infinite_capability[OF h] h show ?thesis by blast
qed

section \<open>The forecast\<close>



section \<open>The failure dict\<close>

text \<open>
  C10. On both failure paths (a table without rows, or an exception caught from the
  \<^verbatim>\<open>try\<close> block) the returned dict has exactly the keys best\_tolerance, message and
  success, with best\_tolerance None and success False; the scenario and current-metric
  keys are absent.
\<close>

theorem failure_result_fields:
  assumes "len_df df = 0 \<or> predict_try df = Inl e"
  shows "\<exists>r msg. Predict_Best_Tolerance_based_on_Material df = Inr r
    \<and> map fst r = [''best_tolerance'', ''message'', ''success'']
    \<and> dict_get r ''best_tolerance'' = Inr PyNone
    \<and> dict_get r ''message'' = Inr (Scalar (Str msg))
    \<and> dict_get r ''success'' = Inr (PyBool False)
    \<and> dict_get r ''all_scenarios'' = Inl (KeyError ''all_scenarios'')
    \<and> dict_get r ''current_cp'' = Inl (KeyError ''current_cp'')
    \<and> dict_get r ''current_cpk'' = Inl (KeyError ''current_cpk'')
    \<and> dict_get r ''current_gage_rr'' = Inl (KeyError ''current_gage_rr'')"
  using assms
  by (auto simp: Predict_Best_Tolerance_based_on_Material_def failure_def dict_get_def)

theorem failure_result_fields_witness:
  "(len_df empty_table = 0 \<or> predict_try empty_table = Inl (KeyError ''MeasValue''))
   \<and> Predict_Best_Tolerance_based_on_Material empty_table =
        Inr [(''best_tolerance'', PyNone),
             (''message'', Scalar (Str ''No data available for prediction'')),
             (''success'', PyBool False)]
   \<and> (len_df text_lsl_table = 0
        \<or> predict_try text_lsl_table = Inl (TypeError ''unsupported operand type(s) for -''))
   \<and> Predict_Best_Tolerance_based_on_Material text_lsl_table =
        Inr [(''best_tolerance'', PyNone),
             (''message'', Scalar (Str ''Error in prediction: unsupported operand type(s) for -'')),
             (''success'', PyBool False)]"
proof -
  have a: "len_df empty_table = 0 \<or> predict_try empty_table = Inl (KeyError ''MeasValue'')"
    by (simp add: len_df_def empty_table_def)
  have b: "len_df text_lsl_table = 0
        \<or> predict_try text_lsl_table = Inl (TypeError ''unsupported operand type(s) for -'')"
    by (simp add: predict_try_text_lsl)
  have c: "len_df empty_table = 0" "len_df text_lsl_table \<noteq> 0"
    by (simp_all add: len_df_def empty_table_def text_lsl_table_def)
  from failure_result_fields[OF a] failure_result_fields[OF b] a b c show ?thesis
    by (simp add: Predict_Best_Tolerance_based_on_Material_def failure_def predict_try_text_lsl)
qed

end
